theory Spec2Isabelle
  imports Main "HOL-Library.Sublist"
begin

section \<open>The \<open>raises\<close> matcher of PyHamcrest (hamcrest/core/core/raises.py)\<close>

text \<open>
  The module holds one matcher class, \<open>Raises\<close>, and a helper class,
  \<open>DeferredCallable\<close>. The embedding below follows the Python text line by line.
  Every method mutates its receiver, may run the candidate (which has effects of its own)
  and may let an exception escape, so a method of the model takes the receiver and the
  state of the rest of the program (the world, of an arbitrary type \<open>'w\<close>) and returns
  the outcome (\<open>Inl\<close> an escaping exception, \<open>Inr\<close> the returned value) together with
  the receiver and the world as the call leaves them.
\<close>

subsection \<open>Exceptions and classes\<close>

text \<open>
  A class is known by its qualified name. An exception object carries its class and the
  proper ancestors of that class. \<open>str()\<close> and \<open>repr()\<close> of an exception run its
  \<open>__str__\<close> and \<open>__repr__\<close>, which return a string or raise: \<open>exc_str\<close> and
  \<open>exc_repr\<close> are the strings returned, \<open>exc_str_raises\<close> and \<open>exc_repr_raises\<close>
  the exceptions raised instead, when there is one (the string is then not looked at).
\<close>

type_synonym cls = string

datatype exc =
  Exc (exc_type: cls) (exc_bases: "cls list") (exc_str: string) (exc_repr: string)
    (exc_str_raises: "exc option") (exc_repr_raises: "exc option")

text \<open>\<open>str(e)\<close> and \<open>repr(e)\<close>.\<close>

definition str_exc :: "exc \<Rightarrow> exc + string" where
  "str_exc e = (case exc_str_raises e of Some err \<Rightarrow> Inl err | None \<Rightarrow> Inr (exc_str e))"

definition repr_exc :: "exc \<Rightarrow> exc + string" where
  "repr_exc e = (case exc_repr_raises e of Some err \<Rightarrow> Inl err | None \<Rightarrow> Inr (exc_repr e))"

text \<open>
  \<open>isinstance(e, K)\<close> for a class \<open>K\<close>. Whatever can be raised derives from
  \<open>BaseException\<close>, and every class from \<open>object\<close>.
\<close>

definition isinstance :: "exc \<Rightarrow> cls \<Rightarrow> bool" where
  "isinstance e K = (K \<in> set (exc_type e # exc_bases e @ [''BaseException'', ''object'']))"

text \<open>\<open>str(K)\<close> of a class: \<open><class 'K'>\<close>.\<close>

definition str_of_type :: "cls \<Rightarrow> string" where
  "str_of_type K = ''<class '' @ [CHR 0x27] @ K @ [CHR 0x27] @ ''>''"

text \<open>\<open>repr(x)\<close> and \<open>str(type(x))\<close> of the field \<open>actual\<close>, which may be \<open>None\<close>.\<close>

definition repr_actual :: "exc option \<Rightarrow> exc + string" where
  "repr_actual a = (case a of None \<Rightarrow> Inr ''None'' | Some e \<Rightarrow> repr_exc e)"

definition type_actual :: "exc option \<Rightarrow> string" where
  "type_actual a = (case a of None \<Rightarrow> str_of_type ''NoneType'' | Some e \<Rightarrow> str_of_type (exc_type e))"

text \<open>
  \<open>repr()\<close> of a message of printable ASCII characters: double quotes when the text
  holds a single quote and no double quote, single quotes otherwise, with a backslash in
  front of a backslash and of the quote in use.
\<close>

definition repr_str :: "string \<Rightarrow> string" where
  "repr_str s =
     (let q = (if CHR 0x27 \<in> set s \<and> CHR 0x22 \<notin> set s then CHR 0x22 else CHR 0x27)
      in q # concat (map (\<lambda>c. if c = q \<or> c = CHR 0x5C then [CHR 0x5C, c] else [c]) s) @ [q])"

text \<open>The built-in exceptions the interpreter raises here, with one message as argument.\<close>

definition TypeError :: "string \<Rightarrow> exc" where
  "TypeError msg =
     Exc ''TypeError'' [''Exception''] msg (''TypeError('' @ repr_str msg @ '')'') None None"

subsection \<open>Objects handed to the matcher\<close>

text \<open>
  What the matcher observes of an object \<open>item\<close>:
  \<^item> \<open>obj_id\<close>: its identity, compared by \<open>is\<close>; no two objects share one, alive or not;
  \<^item> \<open>obj_callable\<close>: the value of \<open>callable(item)\<close>;
  \<^item> \<open>obj_call\<close>: the effect of the call expression \<open>item()\<close> in a given world: the
    exception it raises (\<open>Inl\<close>) or its normal return (\<open>Inr\<close>, the returned value is
    dropped by every caller here), and the world it leaves (a call is assumed to end);
  \<^item> \<open>obj_str\<close>: the value of \<open>str(item)\<close>;
  \<^item> \<open>obj_tuple\<close>: for a tuple, \<open>str()\<close> of each of its elements, which is what the
    operator \<open>%\<close> looks at;
  \<^item> \<open>obj_weakref\<close>: whether the type of the object supports weak references.
    Functions, lambdas, bound methods and instances of ordinary classes such as
    \<open>DeferredCallable\<close> do; method-wrappers, method descriptors and instances of
    classes with \<open>__slots__\<close> and no \<open>__weakref__\<close> slot do not;
  \<^item> \<open>obj_type_name\<close>: the name of its type, which error messages quote.
\<close>

record 'w pyobj =
  obj_id :: nat
  obj_callable :: bool
  obj_call :: "'w \<Rightarrow> (exc + unit) \<times> 'w"
  obj_str :: string
  obj_tuple :: "string list option"
  obj_weakref :: bool
  obj_type_name :: string

text \<open>
  \<open>weakref.ref(x)\<close> keeps the identity of its referent without keeping it alive, and
  raises \<open>TypeError\<close> for an object whose type does not support weak references.
  Calling the reference gives the referent while it is alive and \<open>None\<close> afterwards;
  \<open>live\<close> is the set of identities of the objects alive at that moment. An object
  passed as an argument is alive during the call, which the theorems on
  \<open>describe_mismatch\<close> state as \<open>obj_id item \<in> live\<close> where they need it.
\<close>

datatype wref = WeakRef nat

definition weakref_error :: "string \<Rightarrow> exc" where
  "weakref_error type_name =
     TypeError (''cannot create weak reference to '' @ [CHR 0x27] @ type_name @ [CHR 0x27] @
                '' object'')"

definition ref :: "'w pyobj \<Rightarrow> exc + wref" where
  "ref x =
     (if obj_weakref x then Inr (WeakRef (obj_id x)) else Inl (weakref_error (obj_type_name x)))"

definition deref :: "nat set \<Rightarrow> wref \<Rightarrow> nat option" where
  "deref live r = (case r of WeakRef i \<Rightarrow> if i \<in> live then Some i else None)"

text \<open>
  \<open>"%s is not callable" % item\<close>. The operator takes a tuple on its right as the
  list of arguments: a tuple of one element is replaced by that element, any other tuple
  has too few or too many arguments for the single \<open>%s\<close> and raises \<open>TypeError\<close>.
\<close>

definition format_not_callable :: "'w pyobj \<Rightarrow> exc + string" where
  "format_not_callable item =
     (case obj_tuple item of
        None \<Rightarrow> Inr (obj_str item @ '' is not callable'')
      | Some [] \<Rightarrow> Inl (TypeError ''not enough arguments for format string'')
      | Some [x] \<Rightarrow> Inr (x @ '' is not callable'')
      | Some (x # y # zs) \<Rightarrow>
          Inl (TypeError ''not all arguments converted during string formatting''))"

subsection \<open>Collaborators outside the module\<close>

text \<open>
  \<open>re.search(pattern, string)\<close> is taken as a parameter \<open>search\<close> of the model:
  \<open>Inr True\<close> when a match object is returned, \<open>Inr False\<close> when \<open>None\<close> is,
  \<open>Inl\<close> the exception when the pattern does not compile.
\<close>

type_synonym regex_search = "string \<Rightarrow> string \<Rightarrow> exc + bool"

text \<open>
  Modelled from the spec: \<open>Description.append_text\<close> of hamcrest.core.description, which
  the module imports. The spec calls the description an append-only text-building
  collaborator; it is the text built so far, and \<open>append_text\<close> puts its argument at
  the end.
\<close>

type_synonym description = string

definition append_text :: "description \<Rightarrow> string \<Rightarrow> description" where
  "append_text d s = d @ s"

subsection \<open>class Raises\<close>

text \<open>The four fields set by \<open>__init__\<close>; \<open>function_ref\<close> is the field \<open>function\<close>.\<close>

record Raises =
  pattern :: "string option"
  expected :: cls
  actual :: "exc option"
  function_ref :: "wref option"

definition Raises_init :: "cls \<Rightarrow> string option \<Rightarrow> Raises" where
  "Raises_init exception pat =
     \<lparr>pattern = pat, expected = exception, actual = None, function_ref = None\<rparr>"

text \<open>
  \<open>_call_function\<close>: \<open>actual\<close> is cleared, the candidate is called inside
  \<open>try\<close>, and \<open>except BaseException\<close> takes whatever it raises. \<open>str()\<close> of the
  error and the search run inside the handler, so an exception of either escapes.
\<close>

definition call_function ::
  "regex_search \<Rightarrow> Raises \<Rightarrow> 'w pyobj \<Rightarrow> 'w \<Rightarrow> (exc + bool) \<times> Raises \<times> 'w" where
  "call_function search self f w =
     (let self1 = self\<lparr>actual := None\<rparr> in
      case obj_call f w of
        (Inr u, w1) \<Rightarrow> (Inr False, self1, w1)
      | (Inl e, w1) \<Rightarrow>
          (let self2 = self1\<lparr>actual := Some e\<rparr> in
           if isinstance e (expected self2) then
             (case pattern self2 of
                Some p \<Rightarrow>
                  (case str_exc e of
                     Inl err \<Rightarrow> (Inl err, self2, w1)
                   | Inr s \<Rightarrow>
                       (case search p s of
                          Inl err \<Rightarrow> (Inl err, self2, w1)
                        | Inr found \<Rightarrow> (Inr found, self2, w1)))
              | None \<Rightarrow> (Inr True, self2, w1))
           else (Inr False, self2, w1)))"

text \<open>
  \<open>_matches\<close>, which \<open>BaseMatcher.matches\<close> delegates to. The weak reference is
  made before the call and outside any \<open>try\<close>.
\<close>

definition matches ::
  "regex_search \<Rightarrow> Raises \<Rightarrow> 'w pyobj \<Rightarrow> 'w \<Rightarrow> (exc + bool) \<times> Raises \<times> 'w" where
  "matches search self f w =
     (if \<not> obj_callable f then (Inr False, self, w)
      else
        (case ref f of
           Inl err \<Rightarrow> (Inl err, self, w)
         | Inr r \<Rightarrow> call_function search (self\<lparr>function_ref := Some r\<rparr>) f w))"

definition describe_to :: "Raises \<Rightarrow> description \<Rightarrow> description" where
  "describe_to self d =
     append_text d (''Expected a callable raising '' @ str_of_type (expected self))"

text \<open>
  Lines 56 to 68 of \<open>describe_mismatch\<close>: the report on the captured error, as the
  outcome and the description it leaves. In the branch of the pattern the first text is
  appended before \<open>str()\<close> of the error is taken for the second.
\<close>

definition describe_actual :: "Raises \<Rightarrow> description \<Rightarrow> (exc + unit) \<times> description" where
  "describe_actual self d =
     (case actual self of
        None \<Rightarrow> (Inr (), append_text d ''No exception raised.'')
      | Some e \<Rightarrow>
          if isinstance e (expected self) then
            (case pattern self of
               Some p \<Rightarrow>
                 (let d1 =
                    append_text d
                      (''Correct assertion type raised, but the expected pattern ('' @
                       [CHR 0x22] @ p @ [CHR 0x22] @ '') not found. '')
                  in case str_exc e of
                       Inl err \<Rightarrow> (Inl err, d1)
                     | Inr s \<Rightarrow>
                         (Inr (),
                          append_text d1
                            (''Exception message was: '' @ [CHR 0x22] @ s @ [CHR 0x22])))
             | None \<Rightarrow> (Inr (), d))
          else
            (case repr_exc e of
               Inl err \<Rightarrow> (Inl err, d)
             | Inr r \<Rightarrow>
                 (Inr (),
                  append_text d
                    (r @ '' of type '' @ str_of_type (exc_type e) @ '' was raised instead''))))"

text \<open>
  \<open>describe_mismatch\<close>. The result holds the outcome, the matcher, the description and
  the world.
\<close>

definition describe_mismatch ::
  "regex_search \<Rightarrow> nat set \<Rightarrow> Raises \<Rightarrow> 'w pyobj \<Rightarrow> description \<Rightarrow> 'w \<Rightarrow>
   (exc + unit) \<times> Raises \<times> description \<times> 'w" where
  "describe_mismatch search live self item d w =
     (if \<not> obj_callable item then
        (case format_not_callable item of
           Inl err \<Rightarrow> (Inl err, self, d, w)
         | Inr s \<Rightarrow> (Inr (), self, append_text d s, w))
      else
        (let func = (case function_ref self of None \<Rightarrow> None | Some r \<Rightarrow> deref live r) in
         if func = None \<or> func \<noteq> Some (obj_id item) then
           (case ref item of
              Inl err \<Rightarrow> (Inl err, self, d, w)
            | Inr r \<Rightarrow>
                (let self1 = self\<lparr>function_ref := Some r\<rparr> in
                 case call_function search self1 item w of
                   (Inl err, self2, w1) \<Rightarrow> (Inl err, self2, d, w1)
                 | (Inr b, self2, w1) \<Rightarrow>
                     if \<not> b then (Inr (), self2, d, w1)
                     else (fst (describe_actual self2 d), self2,
                           snd (describe_actual self2 d), w1)))
         else (fst (describe_actual self d), self, snd (describe_actual self d), w)))"

definition describe_match ::
  "regex_search \<Rightarrow> Raises \<Rightarrow> 'w pyobj \<Rightarrow> description \<Rightarrow> 'w \<Rightarrow>
   (exc + unit) \<times> Raises \<times> description \<times> 'w" where
  "describe_match search self item d w =
     (case call_function search self item w of
        (Inl err, self1, w1) \<Rightarrow> (Inl err, self1, d, w1)
      | (Inr b, self1, w1) \<Rightarrow>
          (case repr_actual (actual self1) of
             Inl err \<Rightarrow> (Inl err, self1, d, w1)
           | Inr r \<Rightarrow>
               (Inr (), self1,
                append_text d (r @ '' of type '' @ type_actual (actual self1) @ '' was raised.''),
                w1)))"

definition raises :: "cls \<Rightarrow> string option \<Rightarrow> Raises" where
  "raises exception pat = Raises_init exception pat"

subsection \<open>class DeferredCallable\<close>

text \<open>
  \<open>func\<close> is what the call expression \<open>func(*args, **kwargs)\<close> does: given the
  positional arguments, the named arguments and the world, it raises or returns a
  value, and leaves a world. \<open>with_args\<close> mutates its receiver and returns it, so the
  instances live in a store, addressed by their position in it; a method is given the
  address of its receiver. An address beyond the store stands for no object; the result
  is \<open>None\<close> there.
\<close>

record ('v, 'w) DeferredCallable =
  func :: "'v list \<Rightarrow> (string \<rightharpoonup> 'v) \<Rightarrow> 'w \<Rightarrow> (exc + 'v) \<times> 'w"
  args :: "'v list"
  kwargs :: "string \<rightharpoonup> 'v"

type_synonym ('v, 'w) store = "('v, 'w) DeferredCallable list"

definition lookup :: "('v, 'w) store \<Rightarrow> nat \<Rightarrow> ('v, 'w) DeferredCallable option" where
  "lookup h a = (if a < length h then Some (h ! a) else None)"

definition DeferredCallable_init ::
  "('v list \<Rightarrow> (string \<rightharpoonup> 'v) \<Rightarrow> 'w \<Rightarrow> (exc + 'v) \<times> 'w) \<Rightarrow> ('v, 'w) DeferredCallable" where
  "DeferredCallable_init f = \<lparr>func = f, args = [], kwargs = Map.empty\<rparr>"

text \<open>\<open>calling(func)\<close> creates an instance: the result is its address and the store.\<close>

definition calling ::
  "('v, 'w) store \<Rightarrow> ('v list \<Rightarrow> (string \<rightharpoonup> 'v) \<Rightarrow> 'w \<Rightarrow> (exc + 'v) \<times> 'w) \<Rightarrow>
   nat \<times> ('v, 'w) store" where
  "calling h f = (length h, h @ [DeferredCallable_init f])"

text \<open>
  \<open>with_args(self, *args, **kwargs)\<close>. The receiver is a parameter called \<open>self\<close>,
  so a named argument called \<open>self\<close> cannot be bound: the call raises \<open>TypeError\<close>
  before the body runs and nothing is recorded (the wording of the message is that of
  Python 3.10 and later). Otherwise the arguments are stored and the receiver is
  returned.
\<close>

definition with_args ::
  "('v, 'w) store \<Rightarrow> nat \<Rightarrow> 'v list \<Rightarrow> (string \<rightharpoonup> 'v) \<Rightarrow>
   ((exc + nat) \<times> ('v, 'w) store) option" where
  "with_args h self as kws =
     (case lookup h self of
        None \<Rightarrow> None
      | Some obj \<Rightarrow>
          if kws ''self'' \<noteq> None then
            Some (Inl (TypeError (''DeferredCallable.with_args() got multiple values for argument '' @
                                  [CHR 0x27] @ ''self'' @ [CHR 0x27])), h)
          else Some (Inr self, h[self := obj\<lparr>args := as, kwargs := kws\<rparr>]))"

text \<open>
  \<open>__call__\<close>: the value \<open>func\<close> returns is dropped, an exception it raises is not
  handled.
\<close>

definition DeferredCallable_call ::
  "('v, 'w) store \<Rightarrow> nat \<Rightarrow> 'w \<Rightarrow> ((exc + unit) \<times> 'w) option" where
  "DeferredCallable_call h self w =
     (case lookup h self of
        None \<Rightarrow> None
      | Some obj \<Rightarrow>
          Some (case func obj (args obj) (kwargs obj) w of
                  (Inl e, w1) \<Rightarrow> (Inl e, w1)
                | (Inr v, w1) \<Rightarrow> (Inr (), w1)))"

section \<open>Observing invocations, and sample inputs\<close>

text \<open>
  A candidate with a recording side effect: \<open>recorded f\<close> behaves as \<open>f\<close> and, at every
  call, puts what the call raised (\<open>None\<close> for a normal return) in front of a log kept
  beside the world. The length of the log counts the invocations, its head is the
  outcome of the most recent one.
\<close>

definition raised :: "exc + 'a \<Rightarrow> exc option" where
  "raised r = (case r of Inl e \<Rightarrow> Some e | Inr v \<Rightarrow> None)"

definition recorded :: "'w pyobj \<Rightarrow> ('w \<times> exc option list) pyobj" where
  "recorded f =
     \<lparr>obj_id = obj_id f, obj_callable = obj_callable f,
      obj_call = (\<lambda>(w, log). case obj_call f w of (r, w1) \<Rightarrow> (r, (w1, raised r # log))),
      obj_str = obj_str f, obj_tuple = obj_tuple f, obj_weakref = obj_weakref f,
      obj_type_name = obj_type_name f\<rparr>"

definition latest :: "exc option list \<Rightarrow> exc option" where
  "latest log = (case log of [] \<Rightarrow> None | r # rs \<Rightarrow> r)"

text \<open>
  Sample exceptions, as \<open>ValueError(msg)\<close>, \<open>StopIteration()\<close> and \<open>re.error\<close>
  print, and an exception of a class \<open>Unprintable(ValueError)\<close> whose \<open>__str__\<close>
  raises \<open>RuntimeError('no text')\<close>.
\<close>

definition ValueError :: "string \<Rightarrow> exc" where
  "ValueError msg =
     Exc ''ValueError'' [''Exception''] msg (''ValueError('' @ repr_str msg @ '')'') None None"


definition RuntimeError :: "string \<Rightarrow> exc" where
  "RuntimeError msg =
     Exc ''RuntimeError'' [''Exception''] msg (''RuntimeError('' @ repr_str msg @ '')'') None None"

definition unprintable_error :: exc where
  "unprintable_error =
     Exc ''Unprintable'' [''ValueError'', ''Exception''] [] ''Unprintable()''
       (Some (RuntimeError ''no text'')) None"

definition re_error :: exc where
  "re_error =
     Exc ''re.error'' [''Exception''] ''missing ), unterminated subpattern at position 0''
       (''error('' @ repr_str ''missing ), unterminated subpattern at position 0'' @ '')'')
       None None"

text \<open>
  A search that agrees with \<open>re.search\<close> on the pattern \<open>(\<close>, which does not compile,
  and on patterns of letters, digits and spaces, which are found where they occur.
\<close>

definition sample_search :: regex_search where
  "sample_search p s = (if p = ''('' then Inl re_error else Inr (sublist p s))"

text \<open>
  Sample candidates in a world that is a counter of calls: a function raising a given
  exception, a function returning, the method-wrapper \<open>iter([]).__next__\<close> (callable,
  raising \<open>StopIteration\<close>, no weak references), a callable instance of a class with
  empty \<open>__slots__\<close> whose call returns, the integer 23 and the tuple \<open>(1, 2)\<close>.
\<close>

definition raising_candidate :: "nat \<Rightarrow> exc \<Rightarrow> nat pyobj" where
  "raising_candidate i e =
     \<lparr>obj_id = i, obj_callable = True, obj_call = (\<lambda>n. (Inl e, Suc n)),
      obj_str = ''<function f>'', obj_tuple = None, obj_weakref = True,
      obj_type_name = ''function''\<rparr>"

definition returning_candidate :: "nat \<Rightarrow> nat pyobj" where
  "returning_candidate i =
     \<lparr>obj_id = i, obj_callable = True, obj_call = (\<lambda>n. (Inr (), Suc n)),
      obj_str = ''<function g>'', obj_tuple = None, obj_weakref = True,
      obj_type_name = ''function''\<rparr>"



definition int_item :: "nat pyobj" where
  "int_item =
     \<lparr>obj_id = 23, obj_callable = False,
      obj_call = (\<lambda>n. (Inl (TypeError (CHR 0x27 # ''int'' @ CHR 0x27 # '' object is not callable'')), n)),
      obj_str = ''23'', obj_tuple = None, obj_weakref = False, obj_type_name = ''int''\<rparr>"

definition tuple_item :: "nat pyobj" where
  "tuple_item =
     \<lparr>obj_id = 12, obj_callable = False,
      obj_call = (\<lambda>n. (Inl (TypeError (CHR 0x27 # ''tuple'' @ CHR 0x27 # '' object is not callable'')), n)),
      obj_str = ''(1, 2)'', obj_tuple = Some [''1'', ''2''], obj_weakref = False,
      obj_type_name = ''tuple''\<rparr>"

text \<open>
  A sample target for \<open>calling\<close>: it appends the arguments it is called with to the
  world, a list of calls, and raises \<open>ValueError\<close> when its first argument is negative.
\<close>

definition logging_target ::
  "int list \<Rightarrow> (string \<rightharpoonup> int) \<Rightarrow> (int list \<times> int option) list \<Rightarrow>
   (exc + int) \<times> (int list \<times> int option) list" where
  "logging_target as kws calls =
     ((case as of
         [] \<Rightarrow> Inr 0
       | a # rest \<Rightarrow> if a < 0 then Inl (ValueError ''negative'') else Inr a),
      calls @ [(as, kws ''key'')])"

section \<open>What the matcher answers\<close>

lemma call_function_returns:
  "obj_call f w = (Inr u, w1) \<Longrightarrow>
   call_function search self f w = (Inr False, self\<lparr>actual := None\<rparr>, w1)"
  by (simp add: call_function_def)

lemma call_function_raises:
  "obj_call f w = (Inl e, w1) \<Longrightarrow>
   call_function search self f w =
     ((if isinstance e (expected self) then
         (case pattern self of
            None \<Rightarrow> Inr True
          | Some p \<Rightarrow>
              (case str_exc e of
                 Inl err \<Rightarrow> Inl err
               | Inr s \<Rightarrow> (case search p s of Inl err \<Rightarrow> Inl err | Inr b \<Rightarrow> Inr b)))
       else Inr False),
      self\<lparr>actual := Some e\<rparr>, w1)"
  by (simp add: call_function_def split: option.splits sum.splits)

lemma str_exc_returns: "exc_str_raises e = None \<Longrightarrow> str_exc e = Inr (exc_str e)"
  by (simp add: str_exc_def)

lemma matches_callable:
  "obj_callable f \<Longrightarrow> obj_weakref f \<Longrightarrow>
   matches search self f w =
     call_function search (self\<lparr>function_ref := Some (WeakRef (obj_id f))\<rparr>) f w"
  by (simp add: matches_def ref_def)

lemma matches_no_weakref:
  "obj_callable f \<Longrightarrow> \<not> obj_weakref f \<Longrightarrow>
   matches search self f w = (Inl (weakref_error (obj_type_name f)), self, w)"
  by (simp add: matches_def ref_def)

lemma matches_not_callable:
  "\<not> obj_callable f \<Longrightarrow> matches search self f w = (Inr False, self, w)"
  by (simp add: matches_def)

lemma failing_matches_weakref:
  "obj_callable f \<Longrightarrow> fst (matches search self f w) = Inr b \<Longrightarrow> obj_weakref f"
  by (cases "obj_weakref f") (simp_all add: matches_no_weakref)

lemma describe_mismatch_not_callable:
  "\<not> obj_callable item \<Longrightarrow>
   describe_mismatch search live self item d w =
     (case format_not_callable item of
        Inl err \<Rightarrow> (Inl err, self, d, w)
      | Inr s \<Rightarrow> (Inr (), self, append_text d s, w))"
  by (simp add: describe_mismatch_def)

lemma describe_mismatch_same:
  "obj_callable item \<Longrightarrow> function_ref self = Some (WeakRef (obj_id item)) \<Longrightarrow>
   obj_id item \<in> live \<Longrightarrow>
   describe_mismatch search live self item d w =
     (fst (describe_actual self d), self, snd (describe_actual self d), w)"
  by (simp add: describe_mismatch_def deref_def)

lemma stale_reference:
  assumes "function_ref self = None \<or>
           (\<exists>i. function_ref self = Some (WeakRef i) \<and> (i \<notin> live \<or> i \<noteq> obj_id item))"
  shows "(case function_ref self of None \<Rightarrow> None | Some r \<Rightarrow> deref live r) \<noteq> Some (obj_id item)"
  using assms by (auto simp add: deref_def split: option.splits if_splits)

lemma describe_mismatch_other:
  assumes "obj_callable item" and "obj_weakref item"
    and "function_ref self = None \<or>
         (\<exists>i. function_ref self = Some (WeakRef i) \<and> (i \<notin> live \<or> i \<noteq> obj_id item))"
  shows "describe_mismatch search live self item d w =
     (case call_function search (self\<lparr>function_ref := Some (WeakRef (obj_id item))\<rparr>) item w of
        (Inl err, self2, w1) \<Rightarrow> (Inl err, self2, d, w1)
      | (Inr b, self2, w1) \<Rightarrow>
          if b then (fst (describe_actual self2 d), self2, snd (describe_actual self2 d), w1)
          else (Inr (), self2, d, w1))"
  using assms(1,2) stale_reference [OF assms(3)]
  by (simp add: describe_mismatch_def ref_def Let_def split: prod.splits sum.splits)

lemma describe_mismatch_other_no_weakref:
  assumes "obj_callable item" and "\<not> obj_weakref item"
    and "function_ref self = None \<or>
         (\<exists>i. function_ref self = Some (WeakRef i) \<and> (i \<notin> live \<or> i \<noteq> obj_id item))"
  shows "describe_mismatch search live self item d w =
           (Inl (weakref_error (obj_type_name item)), self, d, w)"
  using assms(1,2) stale_reference [OF assms(3)]
  by (simp add: describe_mismatch_def ref_def Let_def)

text \<open>The sample search on the two messages of the spec's scenario.\<close>

lemma sample_found: "sublist ''bad'' ''this is bad input''"
  by code_simp

lemma sample_not_found: "\<not> sublist ''bad'' ''ok input''"
  by code_simp

lemma call_function_state:
  "snd (call_function search self f w) =
     (self\<lparr>actual := raised (fst (obj_call f w))\<rparr>, snd (obj_call f w))"
proof (cases "obj_call f w")
  case (Pair r w1)
  then show ?thesis
    by (cases r) (simp_all add: call_function_returns call_function_raises raised_def)
qed

lemma matches_state:
  "obj_callable f \<Longrightarrow> obj_weakref f \<Longrightarrow>
   snd (matches search self f w) =
     (self\<lparr>function_ref := Some (WeakRef (obj_id f)), actual := raised (fst (obj_call f w))\<rparr>,
      snd (obj_call f w))"
  by (simp add: matches_callable call_function_state)

subsection \<open>Claim C1\<close>




subsection \<open>Claim C3\<close>




subsection \<open>Claim C4\<close>

text \<open>
  C4. When the captured error is an instance of the expected class, a pattern was given
  and the search does not find it in \<open>str()\<close> of the error, \<open>describe_mismatch\<close> on the
  candidate just checked by \<open>matches\<close> appends
  \<open>Correct assertion type raised, but the expected pattern ("<pattern>") not found. \<close>
  and then \<open>Exception message was: "<error-text>"\<close>; the text appended holds the pattern
  and the text of the error. (That \<open>matches\<close> checked the candidate and searched the
  text of the error says that the candidate admits a weak reference and that \<open>str()\<close>
  of the error returns.)
\<close>

theorem pattern_not_found_reported:
  assumes "obj_callable f" and "obj_call f w = (Inl e, w1)" and "obj_id f \<in> live"
    and "isinstance e (expected self)" and "pattern self = Some p"
    and "search p (exc_str e) = Inr False"
    and "obj_weakref f" and "exc_str_raises e = None"
  shows "case matches search self f w of
           (r, self1, w2) \<Rightarrow>
             r = Inr False \<and> actual self1 = Some e \<and>
             describe_mismatch search live self1 f d w2 =
               (Inr (), self1,
                d @ (''Correct assertion type raised, but the expected pattern ('' @
                     [CHR 0x22] @ p @ [CHR 0x22] @ '') not found. '') @
                    (''Exception message was: '' @ [CHR 0x22] @ exc_str e @ [CHR 0x22]),
                w2) \<and>
             sublist p
               ((''Correct assertion type raised, but the expected pattern ('' @
                 [CHR 0x22] @ p @ [CHR 0x22] @ '') not found. '') @
                (''Exception message was: '' @ [CHR 0x22] @ exc_str e @ [CHR 0x22])) \<and>
             sublist (exc_str e)
               ((''Correct assertion type raised, but the expected pattern ('' @
                 [CHR 0x22] @ p @ [CHR 0x22] @ '') not found. '') @
                (''Exception message was: '' @ [CHR 0x22] @ exc_str e @ [CHR 0x22]))"
proof -
  let ?self1 = "self\<lparr>function_ref := Some (WeakRef (obj_id f)), actual := Some e\<rparr>"
  let ?one = "''Correct assertion type raised, but the expected pattern ('' @
                [CHR 0x22] @ p @ [CHR 0x22] @ '') not found. ''"
  let ?two = "''Exception message was: '' @ [CHR 0x22] @ exc_str e @ [CHR 0x22]"
  have m: "matches search self f w = (Inr False, ?self1, w1)"
    using assms(1,2,4,5,6,7,8)
    by (simp add: matches_callable call_function_raises str_exc_returns)
  have dm: "describe_mismatch search live ?self1 f d w1 = (Inr (), ?self1, d @ ?one @ ?two, w1)"
    using assms(1,3,4,5,8)
    by (simp add: describe_mismatch_same describe_actual_def append_text_def str_exc_returns)
  have p_in: "sublist p (?one @ ?two)"
    unfolding sublist_def
    by (rule exI [of _ "''Correct assertion type raised, but the expected pattern ('' @ [CHR 0x22]"],
        rule exI [of _ "[CHR 0x22] @ '') not found. '' @ ?two"]) simp
  have e_in: "sublist (exc_str e) (?one @ ?two)"
    unfolding sublist_def
    by (rule exI [of _ "?one @ ''Exception message was: '' @ [CHR 0x22]"],
        rule exI [of _ "[CHR 0x22]"]) simp
  from m dm p_in e_in show ?thesis by simp
qed

theorem pattern_not_found_reported_witness:
  "obj_callable (raising_candidate 1 (ValueError ''ok input''))
   \<and> obj_call (raising_candidate 1 (ValueError ''ok input'')) 0 = (Inl (ValueError ''ok input''), 1)
   \<and> obj_id (raising_candidate 1 (ValueError ''ok input'')) \<in> {1}
   \<and> isinstance (ValueError ''ok input'') (expected (raises ''ValueError'' (Some ''bad'')))
   \<and> pattern (raises ''ValueError'' (Some ''bad'')) = Some ''bad''
   \<and> sample_search ''bad'' (exc_str (ValueError ''ok input'')) = Inr False
   \<and> obj_weakref (raising_candidate 1 (ValueError ''ok input''))
   \<and> exc_str_raises (ValueError ''ok input'') = None
   \<and> (case matches sample_search (raises ''ValueError'' (Some ''bad''))
              (raising_candidate 1 (ValueError ''ok input'')) 0 of
         (r, self1, w2) \<Rightarrow>
           r = Inr False \<and>
           describe_mismatch sample_search {1} self1
               (raising_candidate 1 (ValueError ''ok input'')) [] w2 =
             (Inr (), self1,
              ''Correct assertion type raised, but the expected pattern ('' @ [CHR 0x22] @
              ''bad'' @ [CHR 0x22] @ '') not found. Exception message was: '' @ [CHR 0x22] @
              ''ok input'' @ [CHR 0x22],
              w2))"
proof -
  have h1: "obj_callable (raising_candidate 1 (ValueError ''ok input''))"
    and h2: "obj_call (raising_candidate 1 (ValueError ''ok input'')) 0 =
               (Inl (ValueError ''ok input''), 1)"
    and h3: "obj_id (raising_candidate 1 (ValueError ''ok input'')) \<in> {1}"
    and h7: "obj_weakref (raising_candidate 1 (ValueError ''ok input''))"
    by (simp_all add: raising_candidate_def)
  have h4: "isinstance (ValueError ''ok input'') (expected (raises ''ValueError'' (Some ''bad'')))"
    and h5: "pattern (raises ''ValueError'' (Some ''bad'')) = Some ''bad''"
    and h8: "exc_str_raises (ValueError ''ok input'') = None"
    by (simp_all add: isinstance_def ValueError_def raises_def Raises_init_def)
  have h6: "sample_search ''bad'' (exc_str (ValueError ''ok input'')) = Inr False"
    by (simp add: sample_search_def ValueError_def sample_not_found)
  show ?thesis
    using h1 h2 h3 h4 h5 h6 h7 h8
      pattern_not_found_reported
        [where f = "raising_candidate 1 (ValueError ''ok input'')" and w = 0
           and e = "ValueError ''ok input''" and ?w1.0 = 1 and live = "{1}"
           and search = sample_search and self = "raises ''ValueError'' (Some ''bad'')"
           and p = "''bad''" and d = "[]"]
    by (simp add: ValueError_def split: prod.splits)
qed

subsection \<open>Claim C10\<close>

text \<open>
  C10. When \<open>describe_mismatch\<close> is called on the candidate already checked by
  \<open>matches\<close> (hence one that admits a weak reference), the captured error is an
  instance of the expected class and no pattern was given, \<open>describe_mismatch\<close>
  appends nothing: the description stays as it was.
\<close>

theorem expected_error_without_pattern_appends_nothing:
  assumes "obj_callable f" and "obj_call f w = (Inl e, w1)" and "obj_id f \<in> live"
    and "isinstance e (expected self)" and "pattern self = None"
    and "obj_weakref f"
  shows "case matches search self f w of
           (r, self1, w2) \<Rightarrow>
             actual self1 = Some e \<and>
             describe_mismatch search live self1 f d w2 = (Inr (), self1, d, w2)"
proof -
  let ?self1 = "self\<lparr>function_ref := Some (WeakRef (obj_id f)), actual := Some e\<rparr>"
  have m: "matches search self f w = (Inr True, ?self1, w1)"
    using assms(1,2,4,5,6) by (simp add: matches_callable call_function_raises)
  have "describe_mismatch search live ?self1 f d w1 = (Inr (), ?self1, d, w1)"
    using assms(1,3,4,5) by (simp add: describe_mismatch_same describe_actual_def)
  with m show ?thesis by simp
qed

theorem expected_error_without_pattern_appends_nothing_witness:
  "obj_callable (raising_candidate 1 (ValueError ''ok input''))
   \<and> obj_call (raising_candidate 1 (ValueError ''ok input'')) 0 = (Inl (ValueError ''ok input''), 1)
   \<and> obj_id (raising_candidate 1 (ValueError ''ok input'')) \<in> {1}
   \<and> isinstance (ValueError ''ok input'') (expected (raises ''ValueError'' None))
   \<and> pattern (raises ''ValueError'' None) = None
   \<and> obj_weakref (raising_candidate 1 (ValueError ''ok input''))
   \<and> (case matches sample_search (raises ''ValueError'' None)
              (raising_candidate 1 (ValueError ''ok input'')) 0 of
         (r, self1, w2) \<Rightarrow>
           actual self1 = Some (ValueError ''ok input'') \<and>
           describe_mismatch sample_search {1} self1
               (raising_candidate 1 (ValueError ''ok input'')) [] w2 =
             (Inr (), self1, [], w2))"
proof -
  have h1: "obj_callable (raising_candidate 1 (ValueError ''ok input''))"
    and h2: "obj_call (raising_candidate 1 (ValueError ''ok input'')) 0 =
               (Inl (ValueError ''ok input''), 1)"
    and h3: "obj_id (raising_candidate 1 (ValueError ''ok input'')) \<in> {1}"
    and h6: "obj_weakref (raising_candidate 1 (ValueError ''ok input''))"
    by (simp_all add: raising_candidate_def)
  have h4: "isinstance (ValueError ''ok input'') (expected (raises ''ValueError'' None))"
    and h5: "pattern (raises ''ValueError'' None) = None"
    by (simp_all add: isinstance_def ValueError_def raises_def Raises_init_def)
  show ?thesis
    using h1 h2 h3 h4 h5 h6
      expected_error_without_pattern_appends_nothing
        [where f = "raising_candidate 1 (ValueError ''ok input'')" and w = 0
           and e = "ValueError ''ok input''" and ?w1.0 = 1 and live = "{1}"
           and search = sample_search and self = "raises ''ValueError'' None" and d = "[]"]
    by simp
qed

lemma recorded_fields:
  "obj_callable (recorded f) = obj_callable f"
  "obj_id (recorded f) = obj_id f"
  "obj_tuple (recorded f) = obj_tuple f"
  "obj_str (recorded f) = obj_str f"
  "obj_weakref (recorded f) = obj_weakref f"
  "obj_type_name (recorded f) = obj_type_name f"
  by (simp_all add: recorded_def)

lemma recorded_call:
  "obj_call (recorded f) (w, log) =
     (fst (obj_call f w), snd (obj_call f w), raised (fst (obj_call f w)) # log)"
  by (simp add: recorded_def split: prod.splits)

lemma call_function_recorded:
  "snd (call_function search self (recorded f) (w, log)) =
     (self\<lparr>actual := raised (fst (obj_call f w))\<rparr>,
      snd (obj_call f w), raised (fst (obj_call f w)) # log)"
  by (simp add: call_function_state recorded_call)

subsection \<open>Claim C5\<close>

text \<open>
  C5. \<open>describe_mismatch\<close> called right after \<open>matches\<close>, with the identical
  candidate object, does not call the candidate again: the error already captured is
  reported, and a candidate that records its invocations has been invoked exactly once
  over the two calls. The theorem holds whatever \<open>matches\<close> answered once it made
  the weak reference, so also when it failed: a failing \<open>matches\<close> on a callable
  candidate has made the reference (lemma \<open>failing_matches_weakref\<close>). The outcome of
  \<open>describe_mismatch\<close> and the text it leaves are those of the report on the
  captured error.
\<close>

theorem describe_mismatch_after_matches_does_not_call:
  assumes "obj_callable f" and "obj_id f \<in> live" and "obj_weakref f"
  shows "case matches search self (recorded f) (w, log) of
           (r, self1, w1, log1) \<Rightarrow>
             w1 = snd (obj_call f w) \<and>
             log1 = raised (fst (obj_call f w)) # log \<and>
             actual self1 = raised (fst (obj_call f w)) \<and>
             describe_mismatch search live self1 (recorded f) d (w1, log1) =
               (fst (describe_actual self1 d), self1, snd (describe_actual self1 d), w1, log1)"
proof -
  let ?self1 = "self\<lparr>function_ref := Some (WeakRef (obj_id (recorded f))),
                      actual := raised (fst (obj_call f w))\<rparr>"
  have c: "obj_callable (recorded f)" and l: "obj_id (recorded f) \<in> live"
    and k: "obj_weakref (recorded f)"
    using assms by (simp_all add: recorded_fields)
  have m: "snd (matches search self (recorded f) (w, log)) =
             (?self1, snd (obj_call f w), raised (fst (obj_call f w)) # log)"
    using c k by (simp add: matches_callable call_function_recorded)
  have "describe_mismatch search live ?self1 (recorded f) d
          (snd (obj_call f w), raised (fst (obj_call f w)) # log) =
        (fst (describe_actual ?self1 d), ?self1, snd (describe_actual ?self1 d),
         snd (obj_call f w), raised (fst (obj_call f w)) # log)"
    using c l by (simp add: describe_mismatch_same)
  with m show ?thesis
    by (cases "matches search self (recorded f) (w, log)") simp
qed

theorem describe_mismatch_after_matches_does_not_call_witness:
  "obj_callable (returning_candidate 2) \<and> obj_id (returning_candidate 2) \<in> {2}
   \<and> obj_weakref (returning_candidate 2)
   \<and> (case matches sample_search (raises ''ValueError'' None)
              (recorded (returning_candidate 2)) (0, []) of
         (r, self1, w1, log1) \<Rightarrow>
           r = Inr False \<and> w1 = 1 \<and> length log1 = 1 \<and>
           describe_mismatch sample_search {2} self1 (recorded (returning_candidate 2)) []
               (w1, log1) =
             (Inr (), self1, ''No exception raised.'', 1, [None]))"
proof -
  have c: "obj_callable (returning_candidate 2)"
    and l: "obj_id (returning_candidate 2) \<in> {2}"
    and k: "obj_weakref (returning_candidate 2)"
    by (simp_all add: returning_candidate_def)
  have r: "fst (matches sample_search (raises ''ValueError'' None)
                  (recorded (returning_candidate 2)) (0, [])) = Inr False"
    by (simp add: matches_def ref_def call_function_def recorded_def returning_candidate_def)
  have o: "obj_call (returning_candidate 2) 0 = (Inr (), 1)"
    by (simp add: returning_candidate_def)
  show ?thesis
    using c l k r o
      describe_mismatch_after_matches_does_not_call
        [where f = "returning_candidate 2" and live = "{2}" and search = sample_search
           and self = "raises ''ValueError'' None" and w = 0 and log = "[]" and d = "[]"]
    by (auto simp add: raised_def describe_actual_def append_text_def split: prod.splits)
qed

subsection \<open>Claim C9\<close>

text \<open>
  C9. Every operation (\<open>matches\<close>, \<open>describe_mismatch\<close>, \<open>describe_match\<close>) keeps
  the invariant that the field \<open>actual\<close> is empty or holds exactly the exception raised
  by the most recent invocation of a candidate. An exception of that invocation is never
  reported as absent: \<open>_call_function\<close> clears the field before the call and sets it
  from the raised exception afterwards, whatever the field held before. With candidates
  that record their invocations, the invariant reads \<open>actual self = latest log\<close>; it
  holds for a new matcher and an empty log.
\<close>

theorem actual_is_latest_outcome:
  assumes "actual self = latest log"
  shows "(case matches search self (recorded f) (w, log) of
            (r, self1, w1, log1) \<Rightarrow> actual self1 = latest log1)
       \<and> (case describe_mismatch search live self (recorded f) d (w, log) of
            (r, self1, d1, w1, log1) \<Rightarrow> actual self1 = latest log1)
       \<and> (case describe_match search self (recorded f) d (w, log) of
            (r, self1, d1, w1, log1) \<Rightarrow> actual self1 = latest log1)
       \<and> (case call_function search self0 (recorded f) (w, log) of
            (r, self1, w1, log1) \<Rightarrow>
              log1 = raised (fst (obj_call f w)) # log \<and>
              actual self1 = raised (fst (obj_call f w)))
       \<and> actual (Raises_init K pat) = latest []"
proof -
  have cf: "\<And>s. case call_function search s (recorded f) (w, log) of
            (r, self1, w1, log1) \<Rightarrow>
              log1 = raised (fst (obj_call f w)) # log \<and>
              actual self1 = raised (fst (obj_call f w))"
  proof -
    fix s
    show "case call_function search s (recorded f) (w, log) of
            (r, self1, w1, log1) \<Rightarrow>
              log1 = raised (fst (obj_call f w)) # log \<and>
              actual self1 = raised (fst (obj_call f w))"
      using call_function_recorded [of search s f w log]
      by (cases "call_function search s (recorded f) (w, log)") simp
  qed
  have cf': "\<And>s. case call_function search s (recorded f) (w, log) of
            (r, self1, w1, log1) \<Rightarrow> actual self1 = latest log1"
  proof -
    fix s
    show "case call_function search s (recorded f) (w, log) of
            (r, self1, w1, log1) \<Rightarrow> actual self1 = latest log1"
      using cf [of s] by (auto simp add: latest_def split: prod.splits)
  qed
  have m: "case matches search self (recorded f) (w, log) of
            (r, self1, w1, log1) \<Rightarrow> actual self1 = latest log1"
    using cf' [of "self\<lparr>function_ref := Some (WeakRef (obj_id (recorded f)))\<rparr>"] assms
    by (simp add: matches_def ref_def)
  have dm: "case describe_mismatch search live self (recorded f) d (w, log) of
            (r, self1, d1, w1, log1) \<Rightarrow> actual self1 = latest log1"
    using cf' [of "self\<lparr>function_ref := Some (WeakRef (obj_id (recorded f)))\<rparr>"] assms
    by (simp add: describe_mismatch_def ref_def Let_def split: prod.splits sum.splits)
  have dma: "case describe_match search self (recorded f) d (w, log) of
            (r, self1, d1, w1, log1) \<Rightarrow> actual self1 = latest log1"
    using cf' [of self]
    by (simp add: describe_match_def split: prod.splits sum.splits)
  have init: "actual (Raises_init K pat) = latest []"
    by (simp add: Raises_init_def latest_def)
  from m dm dma cf [of self0] init show ?thesis by blast
qed

theorem actual_is_latest_outcome_witness:
  "actual (raises ''ValueError'' None) = latest []
   \<and> actual (fst (snd (matches sample_search (raises ''ValueError'' None)
                (recorded (raising_candidate 1 (TypeError ''x''))) (0, [])))) =
       Some (TypeError ''x'')
   \<and> (case matches sample_search (raises ''ValueError'' None)
              (recorded (raising_candidate 1 (TypeError ''x''))) (0, []) of
         (r, self1, w1, log1) \<Rightarrow> actual self1 = latest log1)
   \<and> (case describe_mismatch sample_search {} (raises ''ValueError'' None)
              (recorded (raising_candidate 1 (TypeError ''x''))) [] (0, []) of
         (r, self1, d1, w1, log1) \<Rightarrow> actual self1 = latest log1)
   \<and> (case describe_match sample_search (raises ''ValueError'' None)
              (recorded (raising_candidate 1 (TypeError ''x''))) [] (0, []) of
         (r, self1, d1, w1, log1) \<Rightarrow> actual self1 = latest log1)"
proof -
  have i: "actual (raises ''ValueError'' None) = latest []"
    by (simp add: raises_def Raises_init_def latest_def)
  have a: "actual (fst (snd (matches sample_search (raises ''ValueError'' None)
              (recorded (raising_candidate 1 (TypeError ''x''))) (0, [])))) = Some (TypeError ''x'')"
    by (simp add: matches_state recorded_fields recorded_call raising_candidate_def raised_def)
  note t = actual_is_latest_outcome
        [where self = "raises ''ValueError'' None" and log = "[]" and search = sample_search
           and f = "raising_candidate 1 (TypeError ''x'')" and w = 0 and live = "{}"
           and d = "[]", OF i]
  show ?thesis
    using i a t [THEN conjunct1] t [THEN conjunct2, THEN conjunct1]
      t [THEN conjunct2, THEN conjunct2, THEN conjunct1]
    apply -
    apply (intro conjI)
        apply assumption+
    done
qed

subsection \<open>Claim C6\<close>

text \<open>
  C6. An error the candidate raises during \<open>matches\<close>, or during the call that
  \<open>describe_mismatch\<close> and \<open>describe_match\<close> make, is caught inside the matcher and
  is not handed on to the caller: it is stored in \<open>actual\<close>, and the operation goes
  on. An error that leaves the operation after such a call is never the caught one
  handed on: it is raised by \<open>str()\<close> of the caught error or by the search of the
  pattern, both evaluated inside the handler once the error is of the expected class and
  a pattern is set, or, in \<open>describe_match\<close>, by \<open>repr()\<close> of the caught error.
  The candidate is called by \<open>matches\<close> when it is callable and admits a weak
  reference, by \<open>describe_mismatch\<close> when moreover it is not the referent of the stored
  reference, and by \<open>describe_match\<close> always.
\<close>

theorem candidate_error_absorbed:
  assumes "obj_call f w = (Inl e, w1)"
  shows "(obj_callable f \<and> obj_weakref f \<longrightarrow>
            (case matches search self f w of
               (r, self1, w2) \<Rightarrow>
                 actual self1 = Some e \<and> w2 = w1 \<and>
                 (\<forall>err. r = Inl err \<longrightarrow>
                    isinstance e (expected self) \<and>
                    (\<exists>p. pattern self = Some p \<and>
                         (str_exc e = Inl err \<or>
                          (\<exists>s. str_exc e = Inr s \<and> search p s = Inl err))))))
       \<and> (obj_callable f \<and> obj_weakref f \<and>
            (function_ref self = None \<or>
             (\<exists>i. function_ref self = Some (WeakRef i) \<and> (i \<notin> live \<or> i \<noteq> obj_id f))) \<longrightarrow>
            (case describe_mismatch search live self f d w of
               (r, self1, d1, w2) \<Rightarrow>
                 actual self1 = Some e \<and> w2 = w1 \<and>
                 (\<forall>err. r = Inl err \<longrightarrow>
                    isinstance e (expected self) \<and>
                    (\<exists>p. pattern self = Some p \<and>
                         (str_exc e = Inl err \<or>
                          (\<exists>s. str_exc e = Inr s \<and> search p s = Inl err))))))
       \<and> (case describe_match search self f d w of
            (r, self1, d1, w2) \<Rightarrow>
              actual self1 = Some e \<and> w2 = w1 \<and>
              (\<forall>err. r = Inl err \<longrightarrow>
                 repr_exc e = Inl err \<or>
                 isinstance e (expected self) \<and>
                 (\<exists>p. pattern self = Some p \<and>
                      (str_exc e = Inl err \<or>
                       (\<exists>s. str_exc e = Inr s \<and> search p s = Inl err)))))"
proof -
  have cf: "\<And>s. pattern s = pattern self \<Longrightarrow> expected s = expected self \<Longrightarrow>
              (case call_function search s f w of
                 (r, self1, w2) \<Rightarrow>
                   actual self1 = Some e \<and> w2 = w1 \<and>
                   pattern self1 = pattern self \<and> expected self1 = expected self \<and>
                   (r = Inr True \<longrightarrow>
                      isinstance e (expected self) \<and>
                      (pattern self = None \<or> (\<exists>t. str_exc e = Inr t))) \<and>
                   (\<forall>err. r = Inl err \<longrightarrow>
                      isinstance e (expected self) \<and>
                      (\<exists>p. pattern self = Some p \<and>
                           (str_exc e = Inl err \<or>
                            (\<exists>s. str_exc e = Inr s \<and> search p s = Inl err)))))"
    using assms by (auto simp add: call_function_raises split: option.splits sum.splits)
  have m: "obj_callable f \<and> obj_weakref f \<longrightarrow>
            (case matches search self f w of
               (r, self1, w2) \<Rightarrow>
                 actual self1 = Some e \<and> w2 = w1 \<and>
                 (\<forall>err. r = Inl err \<longrightarrow>
                    isinstance e (expected self) \<and>
                    (\<exists>p. pattern self = Some p \<and>
                         (str_exc e = Inl err \<or>
                          (\<exists>s. str_exc e = Inr s \<and> search p s = Inl err)))))"
    using cf [of "self\<lparr>function_ref := Some (WeakRef (obj_id f))\<rparr>"]
    by (auto simp add: matches_callable split: prod.splits)
  have dm: "obj_callable f \<and> obj_weakref f \<and>
            (function_ref self = None \<or>
             (\<exists>i. function_ref self = Some (WeakRef i) \<and> (i \<notin> live \<or> i \<noteq> obj_id f))) \<longrightarrow>
            (case describe_mismatch search live self f d w of
               (r, self1, d1, w2) \<Rightarrow>
                 actual self1 = Some e \<and> w2 = w1 \<and>
                 (\<forall>err. r = Inl err \<longrightarrow>
                    isinstance e (expected self) \<and>
                    (\<exists>p. pattern self = Some p \<and>
                         (str_exc e = Inl err \<or>
                          (\<exists>s. str_exc e = Inr s \<and> search p s = Inl err)))))"
  proof
    assume a: "obj_callable f \<and> obj_weakref f \<and>
            (function_ref self = None \<or>
             (\<exists>i. function_ref self = Some (WeakRef i) \<and> (i \<notin> live \<or> i \<noteq> obj_id f)))"
    obtain r s2 w2 where
      c: "call_function search (self\<lparr>function_ref := Some (WeakRef (obj_id f))\<rparr>) f w = (r, s2, w2)"
      by (cases "call_function search (self\<lparr>function_ref := Some (WeakRef (obj_id f))\<rparr>) f w")
        auto
    from cf [of "self\<lparr>function_ref := Some (WeakRef (obj_id f))\<rparr>"] c
    have k: "actual s2 = Some e" "w2 = w1" "pattern s2 = pattern self"
      "expected s2 = expected self"
      "r = Inr True \<longrightarrow>
         isinstance e (expected self) \<and> (pattern self = None \<or> (\<exists>t. str_exc e = Inr t))"
      "\<forall>err. r = Inl err \<longrightarrow>
         isinstance e (expected self) \<and>
         (\<exists>p. pattern self = Some p \<and>
              (str_exc e = Inl err \<or> (\<exists>s. str_exc e = Inr s \<and> search p s = Inl err)))"
      by simp_all
    have quiet: "r = Inr True \<Longrightarrow> fst (describe_actual s2 d) = Inr ()"
      using k(1,3,4,5) by (auto simp add: describe_actual_def Let_def split: option.splits)
    have dmeq: "describe_mismatch search live self f d w =
          (case r of
             Inl err \<Rightarrow> (Inl err, s2, d, w2)
           | Inr b \<Rightarrow>
               if b then (fst (describe_actual s2 d), s2, snd (describe_actual s2 d), w2)
               else (Inr (), s2, d, w2))"
      using a c by (simp add: describe_mismatch_other [of f self live search d w] split: sum.splits)
    show "case describe_mismatch search live self f d w of
               (r, self1, d1, w2) \<Rightarrow>
                 actual self1 = Some e \<and> w2 = w1 \<and>
                 (\<forall>err. r = Inl err \<longrightarrow>
                    isinstance e (expected self) \<and>
                    (\<exists>p. pattern self = Some p \<and>
                         (str_exc e = Inl err \<or>
                          (\<exists>s. str_exc e = Inr s \<and> search p s = Inl err))))"
    proof (cases r)
      case (Inl err)
      with dmeq k show ?thesis by simp
    next
      case (Inr b)
      show ?thesis
      proof (cases b)
        case True
        with Inr quiet have "fst (describe_actual s2 d) = Inr ()" by simp
        with dmeq Inr True k(1,2) show ?thesis by simp
      next
        case False
        with dmeq Inr k(1,2) show ?thesis by simp
      qed
    qed
  qed
  have dma: "case describe_match search self f d w of
            (r, self1, d1, w2) \<Rightarrow>
              actual self1 = Some e \<and> w2 = w1 \<and>
              (\<forall>err. r = Inl err \<longrightarrow>
                 repr_exc e = Inl err \<or>
                 isinstance e (expected self) \<and>
                 (\<exists>p. pattern self = Some p \<and>
                      (str_exc e = Inl err \<or>
                       (\<exists>s. str_exc e = Inr s \<and> search p s = Inl err))))"
  proof -
    obtain r s2 w2 where c: "call_function search self f w = (r, s2, w2)"
      by (cases "call_function search self f w") auto
    from cf [of self] c
    have k: "actual s2 = Some e" "w2 = w1"
      "\<forall>err. r = Inl err \<longrightarrow>
         isinstance e (expected self) \<and>
         (\<exists>p. pattern self = Some p \<and>
              (str_exc e = Inl err \<or> (\<exists>s. str_exc e = Inr s \<and> search p s = Inl err)))"
      by simp_all
    show ?thesis
      using c k
      by (cases r; cases "repr_exc e")
         (simp_all add: describe_match_def repr_actual_def)
  qed
  from m dm dma show ?thesis by blast
qed

theorem candidate_error_absorbed_witness:
  "obj_call (raising_candidate 1 unprintable_error) 0 = (Inl unprintable_error, 1)
   \<and> obj_callable (raising_candidate 1 unprintable_error)
   \<and> obj_weakref (raising_candidate 1 unprintable_error)
   \<and> function_ref (raises ''ValueError'' (Some ''bad'')) = None
   \<and> str_exc unprintable_error = Inl (RuntimeError ''no text'')
   \<and> matches sample_search (raises ''ValueError'' (Some ''bad''))
        (raising_candidate 1 unprintable_error) 0 =
       (Inl (RuntimeError ''no text''),
        \<lparr>pattern = Some ''bad'', expected = ''ValueError'', actual = Some unprintable_error,
         function_ref = Some (WeakRef 1)\<rparr>, 1)
   \<and> (case matches sample_search (raises ''ValueError'' (Some ''bad''))
              (raising_candidate 1 unprintable_error) 0 of
         (r, self1, w2) \<Rightarrow> actual self1 = Some unprintable_error \<and> w2 = 1)
   \<and> (case describe_mismatch sample_search {} (raises ''ValueError'' (Some ''bad''))
              (raising_candidate 1 unprintable_error) [] 0 of
         (r, self1, d1, w2) \<Rightarrow> actual self1 = Some unprintable_error \<and> w2 = 1)
   \<and> (case describe_match sample_search (raises ''ValueError'' (Some ''bad''))
              (raising_candidate 1 unprintable_error) [] 0 of
         (r, self1, d1, w2) \<Rightarrow> actual self1 = Some unprintable_error \<and> w2 = 1)"
proof -
  have h: "obj_call (raising_candidate 1 unprintable_error) 0 = (Inl unprintable_error, 1)"
    and c: "obj_callable (raising_candidate 1 unprintable_error)"
    and k: "obj_weakref (raising_candidate 1 unprintable_error)"
    by (simp_all add: raising_candidate_def)
  have n: "function_ref (raises ''ValueError'' (Some ''bad'')) = None"
    by (simp add: raises_def Raises_init_def)
  have s: "str_exc unprintable_error = Inl (RuntimeError ''no text'')"
    by (simp add: str_exc_def unprintable_error_def)
  have v: "matches sample_search (raises ''ValueError'' (Some ''bad''))
        (raising_candidate 1 unprintable_error) 0 =
       (Inl (RuntimeError ''no text''),
        \<lparr>pattern = Some ''bad'', expected = ''ValueError'', actual = Some unprintable_error,
         function_ref = Some (WeakRef 1)\<rparr>, 1)"
    by (simp add: matches_def ref_def call_function_def str_exc_def raises_def
          Raises_init_def isinstance_def unprintable_error_def raising_candidate_def)
  show ?thesis
    using h c k n s v
      candidate_error_absorbed
        [where f = "raising_candidate 1 unprintable_error" and w = 0
           and e = unprintable_error and ?w1.0 = 1 and search = sample_search
           and self = "raises ''ValueError'' (Some ''bad'')" and live = "{}" and d = "[]"]
    by (simp split: prod.splits)
qed

text \<open>
  The errors that do leave \<open>matches\<close> after the candidate has raised an error of the
  expected class: that of a pattern that does not compile, and that of \<open>str()\<close> of the
  error (in the witness above). The error of the candidate is in \<open>actual\<close> all the
  same.
\<close>

lemma invalid_pattern_escapes:
  "matches sample_search (raises ''ValueError'' (Some ''(''))
       (raising_candidate 1 (ValueError ''ok input'')) 0 =
     (Inl re_error,
      \<lparr>pattern = Some ''('', expected = ''ValueError'', actual = Some (ValueError ''ok input''),
       function_ref = Some (WeakRef 1)\<rparr>, 1)"
  by (simp add: matches_def call_function_def raises_def Raises_init_def str_exc_def
        raising_candidate_def ValueError_def isinstance_def sample_search_def ref_def)

subsection \<open>Claim C8\<close>

text \<open>
  C8, as the code has it: \<open>calling(f).with_args(positional..., named...)\<close>, with no
  named argument called \<open>self\<close>, records exactly the given positional arguments and
  named arguments and returns the same \<open>DeferredCallable\<close>; calling that object
  without arguments calls \<open>f\<close> once with the recorded arguments (the world it leaves
  is the one a single call of \<open>f\<close> leaves), and an error \<open>f\<close> raises reaches the
  caller as it is.
\<close>

theorem calling_with_args_forwards:
  assumes "kws ''self'' = None"
  shows "case calling h f of
     (a, h1) \<Rightarrow>
       (case with_args h1 a as kws of
          None \<Rightarrow> False
        | Some (Inl err, h2) \<Rightarrow> False
        | Some (Inr b, h2) \<Rightarrow>
            b = a \<and>
            lookup h2 a = Some \<lparr>func = f, args = as, kwargs = kws\<rparr> \<and>
            DeferredCallable_call h2 a w =
              Some (case f as kws w of
                      (Inl e, w1) \<Rightarrow> (Inl e, w1)
                    | (Inr v, w1) \<Rightarrow> (Inr (), w1)))"
  using assms
  by (simp add: calling_def with_args_def lookup_def DeferredCallable_call_def
        DeferredCallable_init_def nth_append)

theorem calling_with_args_forwards_witness:
  "[''key'' \<mapsto> (5::int)] ''self'' = None
   \<and> (case calling [] logging_target of
      (a, h1) \<Rightarrow>
        (case with_args h1 a [1, 2] [''key'' \<mapsto> 5] of
           None \<Rightarrow> False
         | Some (Inl err, h2) \<Rightarrow> False
         | Some (Inr b, h2) \<Rightarrow>
             b = a \<and> DeferredCallable_call h2 a [] = Some (Inr (), [([1, 2], Some 5)])))
   \<and> (case calling [] logging_target of
      (a, h1) \<Rightarrow>
        (case with_args h1 a [- 1] Map.empty of
           None \<Rightarrow> False
         | Some (Inl err, h2) \<Rightarrow> False
         | Some (Inr b, h2) \<Rightarrow>
             b = a \<and>
             DeferredCallable_call h2 a [] =
               Some (Inl (ValueError ''negative''), [([- 1], None)])))"
proof -
  have one: "logging_target [1, 2] [''key'' \<mapsto> 5] [] = (Inr 1, [([1, 2], Some 5)])"
    and two: "logging_target [- 1] Map.empty [] =
                (Inl (ValueError ''negative''), [([- 1], None)])"
    by (simp_all add: logging_target_def)
  have k: "[''key'' \<mapsto> (5::int)] ''self'' = None"
    by simp
  show ?thesis
    using k
      calling_with_args_forwards
        [where h = "[]" and f = logging_target and as = "[1, 2]" and kws = "[''key'' \<mapsto> 5]"
           and w = "[]"]
      calling_with_args_forwards
        [where h = "[]" and f = logging_target and as = "[- 1]" and kws = Map.empty
           and w = "[]"]
    by (simp add: one two calling_def with_args_def lookup_def DeferredCallable_init_def)
qed

text \<open>
  The claim as stated, for every named mapping, fails on
  \<open>calling(f).with_args(self=7)\<close>: the call raises \<open>TypeError\<close>, returns no
  object, and the instance still holds the empty arguments \<open>__init__\<close> gave it.
\<close>

theorem calling_with_args_forwards_counterexample:
  "with_args (snd (calling [] logging_target)) (fst (calling [] logging_target)) []
       [''self'' \<mapsto> 7] =
     Some (Inl (TypeError (''DeferredCallable.with_args() got multiple values for argument '' @
                           [CHR 0x27] @ ''self'' @ [CHR 0x27])),
           snd (calling [] logging_target))
   \<and> lookup (snd (calling [] logging_target)) (fst (calling [] logging_target)) =
       Some \<lparr>func = logging_target, args = [], kwargs = Map.empty\<rparr>"
  by (simp add: calling_def with_args_def lookup_def DeferredCallable_init_def)

subsection \<open>Claim C2\<close>

text \<open>
  What \<open>describe_mismatch\<close> does with a callable candidate that admits a weak
  reference and is not the referent of the stored reference (no reference, a dead
  referent, or another object): it stores a reference to the candidate, calls it through
  \<open>_call_function\<close>, and then returns without a word when the call does \<^emph>\<open>not\<close>
  satisfy the matcher; when the call satisfies the matcher, it goes on to report the
  captured error.
\<close>

lemma describe_mismatch_other_mismatch_silent:
  assumes "obj_callable item" and "obj_weakref item"
    and "function_ref self = None \<or>
         (\<exists>i. function_ref self = Some (WeakRef i) \<and> (i \<notin> live \<or> i \<noteq> obj_id item))"
    and "fst (call_function search (self\<lparr>function_ref := Some (WeakRef (obj_id item))\<rparr>) item w) =
           Inr False"
  shows "describe_mismatch search live self item d w =
           (Inr (), self\<lparr>function_ref := Some (WeakRef (obj_id item)),
                          actual := raised (fst (obj_call item w))\<rparr>,
            d, snd (obj_call item w))"
proof -
  let ?s = "self\<lparr>function_ref := Some (WeakRef (obj_id item))\<rparr>"
  obtain r s w1 where c: "call_function search ?s item w = (r, s, w1)"
    by (cases "call_function search ?s item w") auto
  with assms(4) have r: "r = Inr False" by simp
  from c call_function_state [of search ?s item w]
  have s: "s = self\<lparr>function_ref := Some (WeakRef (obj_id item)),
                    actual := raised (fst (obj_call item w))\<rparr>"
    and w1: "w1 = snd (obj_call item w)"
    by simp_all
  show ?thesis
    using c r s w1 by (simp add: describe_mismatch_other [OF assms(1,2,3)])
qed

lemma describe_mismatch_other_match_described:
  assumes "obj_callable item" and "obj_weakref item"
    and "function_ref self = None \<or>
         (\<exists>i. function_ref self = Some (WeakRef i) \<and> (i \<notin> live \<or> i \<noteq> obj_id item))"
    and "fst (call_function search (self\<lparr>function_ref := Some (WeakRef (obj_id item))\<rparr>) item w) =
           Inr True"
  shows "describe_mismatch search live self item d w =
           (fst (describe_actual
                   (self\<lparr>function_ref := Some (WeakRef (obj_id item)),
                         actual := raised (fst (obj_call item w))\<rparr>) d),
            self\<lparr>function_ref := Some (WeakRef (obj_id item)),
                 actual := raised (fst (obj_call item w))\<rparr>,
            snd (describe_actual
                   (self\<lparr>function_ref := Some (WeakRef (obj_id item)),
                         actual := raised (fst (obj_call item w))\<rparr>) d),
            snd (obj_call item w))"
proof -
  let ?s = "self\<lparr>function_ref := Some (WeakRef (obj_id item))\<rparr>"
  obtain r s w1 where c: "call_function search ?s item w = (r, s, w1)"
    by (cases "call_function search ?s item w") auto
  with assms(4) have r: "r = Inr True" by simp
  from c call_function_state [of search ?s item w]
  have s: "s = self\<lparr>function_ref := Some (WeakRef (obj_id item)),
                    actual := raised (fst (obj_call item w))\<rparr>"
    and w1: "w1 = snd (obj_call item w)"
    by simp_all
  show ?thesis
    using c r s w1 by (simp add: describe_mismatch_other [OF assms(1,2,3)])
qed

text \<open>
  C2. The claim: when \<open>describe_mismatch\<close> is given a callable candidate that is not the
  referent of the stored weak reference, the matcher calls the candidate again, updates
  the reference and \<open>actual\<close>, and, if that call satisfies the matcher, returns without
  appending any text. The code does the opposite at \<open>if not self._call_function(item):
  return\<close>. Evaluated on a new matcher \<open>raises(ValueError, "bad")\<close>: for a candidate
  raising \<open>ValueError("this is bad input")\<close>, which satisfies the matcher, the text that
  the pattern was not found is appended; for a candidate that raises nothing, which does
  not satisfy it, nothing is appended.
\<close>

theorem describe_mismatch_on_new_candidate_evaluated:
  "describe_mismatch sample_search {1} (raises ''ValueError'' (Some ''bad''))
       (raising_candidate 1 (ValueError ''this is bad input'')) [] 0 =
     (Inr (),
      \<lparr>pattern = Some ''bad'', expected = ''ValueError'',
       actual = Some (ValueError ''this is bad input''), function_ref = Some (WeakRef 1)\<rparr>,
      ''Correct assertion type raised, but the expected pattern ('' @ [CHR 0x22] @ ''bad'' @
      [CHR 0x22] @ '') not found. Exception message was: '' @ [CHR 0x22] @
      ''this is bad input'' @ [CHR 0x22],
      1)
   \<and> fst (matches sample_search (raises ''ValueError'' (Some ''bad''))
            (raising_candidate 1 (ValueError ''this is bad input'')) 0) = Inr True
   \<and> describe_mismatch sample_search {2} (raises ''ValueError'' (Some ''bad''))
       (returning_candidate 2) [] 0 =
     (Inr (),
      \<lparr>pattern = Some ''bad'', expected = ''ValueError'', actual = None,
       function_ref = Some (WeakRef 2)\<rparr>,
      [], 1)"
  by (simp add: describe_mismatch_def matches_def call_function_def describe_actual_def
        append_text_def raises_def Raises_init_def raising_candidate_def
        returning_candidate_def ValueError_def isinstance_def sample_search_def sample_found
        ref_def str_exc_def)

subsection \<open>Claim C7\<close>

text \<open>
  For a candidate that is not callable, \<open>matches\<close> returns false and touches nothing,
  and \<open>describe_mismatch\<close> calls nothing; when the candidate is not a tuple, the text
  appended is \<open>str()\<close> of the candidate followed by \<open> is not callable\<close>.
\<close>

lemma not_callable_reported:
  assumes "\<not> obj_callable item" and "obj_tuple item = None"
  shows "matches search self item w = (Inr False, self, w)"
    and "describe_mismatch search live self item d w =
           (Inr (), self, d @ obj_str item @ '' is not callable'', w)"
  using assms
  by (simp_all add: matches_not_callable describe_mismatch_not_callable
        format_not_callable_def append_text_def)

text \<open>
  C7. The claim: if the candidate is not callable, \<open>matches\<close> returns false at once,
  raising nothing and calling nothing, and \<open>describe_mismatch\<close> appends
  \<open>{candidate} is not callable\<close> and returns, calling nothing. The code formats the
  text with \<open>"%s is not callable" % item\<close>, which unpacks a tuple: for the tuple
  \<open>(1, 2)\<close>, \<open>matches\<close> returns false and \<open>describe_mismatch\<close> raises
  \<open>TypeError\<close>, appending nothing; for the integer 23 the text is appended.
\<close>

theorem describe_mismatch_on_tuple_evaluated:
  "matches sample_search (raises ''ValueError'' None) tuple_item 0 =
     (Inr False, raises ''ValueError'' None, 0)
   \<and> describe_mismatch sample_search {12} (raises ''ValueError'' None) tuple_item [] 0 =
     (Inl (TypeError ''not all arguments converted during string formatting''),
      raises ''ValueError'' None, [], 0)
   \<and> describe_mismatch sample_search {23} (raises ''ValueError'' None) int_item [] 0 =
     (Inr (), raises ''ValueError'' None, ''23 is not callable'', 0)"
  by (simp add: matches_def describe_mismatch_def format_not_callable_def append_text_def
        tuple_item_def int_item_def)

end
